theory Spec2Isabelle
  imports Complex_Main "HOL-Library.Multiset"
begin

section \<open>Data model\<close>

text \<open>
  Modelled from the spec: the TypeScript declarations of customers, order items and
  orders live in \<open>../types\<close>, which is not among the sources. The records below have the
  fields the spec lists, which are the ones the order summary page
  (\<open>src/pages/OrderSummary.tsx\<close>) reads: \<open>customer.id\<close>, \<open>order.customer.name\<close>,
  \<open>order.customer.type\<close>, \<open>order.created_at\<close>, \<open>order.items\<close>, \<open>item.name\<close>,
  \<open>item.category\<close>, \<open>item.price\<close>, \<open>item.quantity\<close>. Numbers are kept abstract as a type
  parameter \<open>'n\<close>: the code only adds and multiplies them.
\<close>

datatype CustomerType = Adult | Child

record Customer =
  customer_id :: string
  customer_name :: string
  customer_type :: CustomerType

record 'n OrderItem =
  name :: string
  category :: string
  price :: 'n
  quantity :: 'n

record 'n Order =
  order_id :: string
  created_at :: string
  order_customer :: Customer
  order_items :: "'n OrderItem list"

section \<open>Order aggregation\<close>

text \<open>
  \<open>calculateTotal\<close> (lines 47--54) is \<open>items.reduce(f, 0)\<close>: a left fold from \<open>0\<close> whose
  step adds \<open>item.price * item.quantity\<close> when \<open>item.category !== 'tapas'\<close> and returns
  the running total unchanged otherwise. The number type only needs \<open>0\<close>, \<open>+\<close> and \<open>*\<close>;
  no law of arithmetic is assumed of them, so what is proved of this definition holds
  for JavaScript's binary64 numbers as well as for exact arithmetic.
\<close>

definition chargeable :: "'n OrderItem \<Rightarrow> bool" where
  "chargeable item = (category item \<noteq> ''tapas'')"

definition calculateTotal :: "('n::{zero,plus,times}) OrderItem list \<Rightarrow> 'n" where
  "calculateTotal its =
     foldl (\<lambda>total item.
              if category item \<noteq> ''tapas'' then total + (price item * quantity item)
              else total)
           0 its"

section \<open>JavaScript numbers\<close>

text \<open>
  A JavaScript number is an IEEE 754 binary64 value: a finite value is a rational
  \<open>m * 2 ^ e\<close> with \<open>\<bar>m\<bar> < 2 ^ 53\<close> and \<open>- 1074 \<le> e\<close>; sums and products are the exact
  results rounded to the nearest such value, ties to the even significand, and
  overflow beyond the largest finite value gives an infinity. The sign of zero is not
  represented: \<open>+0\<close> and \<open>-0\<close> are equal under \<open>===\<close> and \<open>calculateTotal\<close> starts from \<open>+0\<close>.
\<close>

datatype double = Finite rat | PosInfinity | NegInfinity | NaN

fun bit_length :: "nat \<Rightarrow> nat" where
  "bit_length n = (if n = 0 then 0 else Suc (bit_length (n div 2)))"

declare bit_length.simps [simp del]

definition pow2 :: "int \<Rightarrow> rat" where
  "pow2 e = (if 0 \<le> e then 2 ^ nat e else 1 / 2 ^ nat (- e))"

text \<open>\<open>binary_exponent q\<close> is the integer \<open>e\<close> with \<open>2 ^ e \<le> \<bar>q\<bar> < 2 ^ (e + 1)\<close>, for \<open>q \<noteq> 0\<close>.\<close>

definition binary_exponent :: "rat \<Rightarrow> int" where
  "binary_exponent q =
     (let a = \<bar>q\<bar>
      in if 1 \<le> a then int (bit_length (nat \<lfloor>a\<rfloor>)) - 1
         else - int (bit_length (nat (\<lceil>1 / a\<rceil> - 1))))"

definition round_half_even :: "rat \<Rightarrow> int" where
  "round_half_even q =
     (let f = \<lfloor>q\<rfloor>; d = q - of_int f
      in if d < 1 / 2 then f
         else if 1 / 2 < d then f + 1
         else if even f then f else f + 1)"

text \<open>
  Rounding an exact value to binary64: the unit in the last place is \<open>2 ^ (e - 52)\<close>
  for the value's exponent \<open>e\<close>, and \<open>2 ^ - 1074\<close> throughout the subnormal range.
\<close>

definition round_to_double :: "rat \<Rightarrow> double" where
  "round_to_double q =
     (if q = 0 then Finite 0
      else let e = max (binary_exponent q) (- 1022);
               ulp = pow2 (e - 52);
               r = of_int (round_half_even (q / ulp)) * ulp
           in if pow2 1024 \<le> \<bar>r\<bar> then (if 0 < q then PosInfinity else NegInfinity)
              else Finite r)"

instantiation double :: "{zero,plus,times}"
begin

definition zero_double :: double where
  "zero_double = Finite 0"

fun plus_double :: "double \<Rightarrow> double \<Rightarrow> double" where
  "plus_double NaN y = NaN"
| "plus_double x NaN = NaN"
| "plus_double PosInfinity NegInfinity = NaN"
| "plus_double NegInfinity PosInfinity = NaN"
| "plus_double PosInfinity y = PosInfinity"
| "plus_double x PosInfinity = PosInfinity"
| "plus_double NegInfinity y = NegInfinity"
| "plus_double x NegInfinity = NegInfinity"
| "plus_double (Finite a) (Finite b) = round_to_double (a + b)"

fun times_double :: "double \<Rightarrow> double \<Rightarrow> double" where
  "times_double NaN y = NaN"
| "times_double x NaN = NaN"
| "times_double (Finite a) (Finite b) = round_to_double (a * b)"
| "times_double (Finite a) PosInfinity =
     (if a = 0 then NaN else if 0 < a then PosInfinity else NegInfinity)"
| "times_double (Finite a) NegInfinity =
     (if a = 0 then NaN else if 0 < a then NegInfinity else PosInfinity)"
| "times_double PosInfinity (Finite b) =
     (if b = 0 then NaN else if 0 < b then PosInfinity else NegInfinity)"
| "times_double NegInfinity (Finite b) =
     (if b = 0 then NaN else if 0 < b then NegInfinity else PosInfinity)"
| "times_double PosInfinity PosInfinity = PosInfinity"
| "times_double NegInfinity NegInfinity = PosInfinity"
| "times_double PosInfinity NegInfinity = NegInfinity"
| "times_double NegInfinity PosInfinity = NegInfinity"

instance ..

end

text \<open>A decimal literal of the program text denotes the nearest binary64 value.\<close>

definition literal :: "rat \<Rightarrow> double" where
  "literal q = round_to_double q"

definition drink :: "string \<Rightarrow> 'n \<Rightarrow> 'n \<Rightarrow> 'n OrderItem" where
  "drink nm p q = \<lparr>name = nm, category = ''drinks'', price = p, quantity = q\<rparr>"

definition tapa :: "string \<Rightarrow> 'n \<Rightarrow> 'n \<Rightarrow> 'n OrderItem" where
  "tapa nm p q = \<lparr>name = nm, category = ''tapas'', price = p, quantity = q\<rparr>"

section \<open>The view: state, backend and effects\<close>

text \<open>
  A promise returned by a backend call either resolves with a value or rejects with an
  error (here: its message).
\<close>

datatype 'a outcome = Resolved 'a | Rejected string

text \<open>
  The four backend operations are imported from \<open>../lib/supabase\<close> and are external to
  the page. A \<open>backend\<close> gives the outcome of each call; nothing is assumed about it, so
  a statement for every backend covers every combination of successes and failures.
  \<open>getAllOrders\<close> may resolve with \<open>null\<close> (\<open>None\<close>), which line 24 guards against.
\<close>

record 'n backend =
  saveOrder :: "string \<Rightarrow> 'n OrderItem list \<Rightarrow> unit outcome"
  getAllOrders :: "'n Order list option outcome"
  deleteOrder :: "string \<Rightarrow> unit outcome"
  getTopTapas :: "(string \<times> 'n) list outcome"

text \<open>
  Every effectful statement of the handlers is recorded, in program order, in a trace:
  the state setters, the backend calls, \<open>console.error\<close>, \<open>clearOrder\<close> and the
  \<open>setTimeout\<close> that schedules \<open>navigate\<close>.
\<close>

datatype 'n effect =
    SetIsSaving bool
  | SetSavedSuccessfully bool
  | SetError "string option"
  | SetAllOrders "'n Order list"
  | SetIsLoading bool
  | SetIsDeletingOrder "string option"
  | SetTopTapas "(string \<times> 'n) list"
  | Call_saveOrder string "'n OrderItem list"
  | Call_getAllOrders
  | Call_deleteOrder string
  | Call_getTopTapas
  | ConsoleError string string
  | ClearOrder
  | SetTimeout_navigate string nat

text \<open>
  The state the page works on: the store's cart (\<open>customer\<close>, \<open>orderItems\<close>, line 11), the
  component's seven state variables (lines 12--18) and the trace.
\<close>

record 'n world =
  customer :: "Customer option"
  orderItems :: "'n OrderItem list"
  isSaving :: bool
  savedSuccessfully :: bool
  error :: "string option"
  allOrders :: "'n Order list"
  isLoading :: bool
  isDeletingOrder :: "string option"
  topTapas :: "(string \<times> 'n) list"
  trace :: "'n effect list"

text \<open>The initial values of the \<open>useState\<close> calls, for a given store.\<close>

definition initial_world :: "Customer option \<Rightarrow> 'n OrderItem list \<Rightarrow> 'n world" where
  "initial_world c its =
     \<lparr>customer = c, orderItems = its, isSaving = False, savedSuccessfully = False,
      error = None, allOrders = [], isLoading = True, isDeletingOrder = None,
      topTapas = [], trace = []\<rparr>"

definition emit :: "'n effect \<Rightarrow> 'n world \<Rightarrow> 'n world" where
  "emit e w = w\<lparr>trace := trace w @ [e]\<rparr>"

definition setIsSaving :: "bool \<Rightarrow> 'n world \<Rightarrow> 'n world" where
  "setIsSaving v w = emit (SetIsSaving v) (w\<lparr>isSaving := v\<rparr>)"

definition setSavedSuccessfully :: "bool \<Rightarrow> 'n world \<Rightarrow> 'n world" where
  "setSavedSuccessfully v w = emit (SetSavedSuccessfully v) (w\<lparr>savedSuccessfully := v\<rparr>)"

definition setError :: "string option \<Rightarrow> 'n world \<Rightarrow> 'n world" where
  "setError v w = emit (SetError v) (w\<lparr>error := v\<rparr>)"

definition setAllOrders :: "'n Order list \<Rightarrow> 'n world \<Rightarrow> 'n world" where
  "setAllOrders v w = emit (SetAllOrders v) (w\<lparr>allOrders := v\<rparr>)"

definition setIsLoading :: "bool \<Rightarrow> 'n world \<Rightarrow> 'n world" where
  "setIsLoading v w = emit (SetIsLoading v) (w\<lparr>isLoading := v\<rparr>)"

definition setIsDeletingOrder :: "string option \<Rightarrow> 'n world \<Rightarrow> 'n world" where
  "setIsDeletingOrder v w = emit (SetIsDeletingOrder v) (w\<lparr>isDeletingOrder := v\<rparr>)"

definition setTopTapas :: "(string \<times> 'n) list \<Rightarrow> 'n world \<Rightarrow> 'n world" where
  "setTopTapas v w = emit (SetTopTapas v) (w\<lparr>topTapas := v\<rparr>)"

definition console_error :: "string \<Rightarrow> string \<Rightarrow> 'n world \<Rightarrow> 'n world" where
  "console_error label err w = emit (ConsoleError label err) w"

definition setTimeout_navigate :: "string \<Rightarrow> nat \<Rightarrow> 'n world \<Rightarrow> 'n world" where
  "setTimeout_navigate route ms w = emit (SetTimeout_navigate route ms) w"

text \<open>
  Modelled from the spec: \<open>clearOrder\<close> belongs to the store (\<open>../store/useStore\<close>), which
  is not among the sources. The spec calls the cart "the mutable, not-yet-confirmed list
  of items plus selected customer", and clearing it empties both.
\<close>

definition clearOrder :: "'n world \<Rightarrow> 'n world" where
  "clearOrder w = emit ClearOrder (w\<lparr>customer := None, orderItems := []\<rparr>)"

text \<open>The user-visible messages (lines 27, 64 and 87; \<open>0xE9\<close> is the e-acute of line 87).\<close>

definition load_error_message :: string where
  "load_error_message = ''Error al cargar los pedidos''"

definition delete_error_message :: string where
  "delete_error_message = ''Error al eliminar el pedido''"

definition save_error_message :: string where
  "save_error_message =
     ''Error al guardar el pedido. Por favor, int'' @ [CHR 0xE9] @ ''ntalo de nuevo.''"

section \<open>The handlers, each run to completion\<close>

text \<open>
  Each handler is an \<open>async\<close> function with \<open>try\<close>/\<open>catch\<close>/\<open>finally\<close>. Run on its own,
  with every awaited promise settled as the backend says, it is a function from the
  state before to the state after. A backend call appends its \<open>Call_\<close> effect at the
  point where the call is made.
\<close>

text \<open>\<open>loadOrders\<close>, lines 20--31.\<close>

definition loadOrders :: "'n backend \<Rightarrow> 'n world \<Rightarrow> 'n world" where
  "loadOrders B w0 =
     (let w1 = setIsLoading True w0;
          w2 = emit Call_getAllOrders w1
      in case getAllOrders B of
           Resolved orders \<Rightarrow>
             (let w3 = setAllOrders (case orders of Some os \<Rightarrow> os | None \<Rightarrow> []) w2
              in setIsLoading False w3)
         | Rejected err \<Rightarrow>
             (let w3 = console_error ''Error loading orders:'' err w2;
                  w4 = setError (Some load_error_message) w3
              in setIsLoading False w4))"

text \<open>\<open>loadTopTapas\<close>, lines 33--40.\<close>

definition loadTopTapas :: "'n backend \<Rightarrow> 'n world \<Rightarrow> 'n world" where
  "loadTopTapas B w0 =
     (let w1 = emit Call_getTopTapas w0
      in case getTopTapas B of
           Resolved topTapasData \<Rightarrow> setTopTapas topTapasData w1
         | Rejected err \<Rightarrow> console_error ''Error loading top tapas:'' err w1)"

text \<open>
  \<open>handleDeleteOrder\<close>, lines 56--68. The \<open>try\<close> block returns the error it threw, if
  any, with the state reached; \<open>loadOrders\<close> and \<open>loadTopTapas\<close> catch their own errors
  and never throw.
\<close>

definition handleDeleteOrder_try :: "'n backend \<Rightarrow> string \<Rightarrow> 'n world \<Rightarrow> string option \<times> 'n world" where
  "handleDeleteOrder_try B orderId w0 =
     (let w1 = setIsDeletingOrder (Some orderId) w0;
          w2 = emit (Call_deleteOrder orderId) w1
      in case deleteOrder B orderId of
           Rejected err \<Rightarrow> (Some err, w2)
         | Resolved _ \<Rightarrow>
             (let w3 = loadOrders B w2;
                  w4 = loadTopTapas B w3
              in (None, w4)))"

definition handleDeleteOrder :: "'n backend \<Rightarrow> string \<Rightarrow> 'n world \<Rightarrow> 'n world" where
  "handleDeleteOrder B orderId w0 =
     (case handleDeleteOrder_try B orderId w0 of
        (None, w) \<Rightarrow> setIsDeletingOrder None w
      | (Some err, w) \<Rightarrow>
          (let w' = console_error ''Error deleting order:'' err w;
               w'' = setError (Some delete_error_message) w'
           in setIsDeletingOrder None w''))"

text \<open>\<open>handleConfirmOrder\<close>, lines 70--92.\<close>

definition handleConfirmOrder_try :: "'n backend \<Rightarrow> 'n world \<Rightarrow> string option \<times> 'n world" where
  "handleConfirmOrder_try B w0 =
     (let w1 = setIsSaving True w0;
          w2 = setError None w1
      in case customer w2 of
           None \<Rightarrow> (Some ''No customer selected'', w2)
         | Some c \<Rightarrow>
             (let w3 = emit (Call_saveOrder (customer_id c) (orderItems w2)) w2
              in case saveOrder B (customer_id c) (orderItems w2) of
                   Rejected err \<Rightarrow> (Some err, w3)
                 | Resolved _ \<Rightarrow>
                     (let w4 = setSavedSuccessfully True w3;
                          w5 = clearOrder w4;
                          w6 = loadOrders B w5;
                          w7 = loadTopTapas B w6;
                          w8 = setTimeout_navigate ''/'' 2000 w7
                      in (None, w8))))"

definition handleConfirmOrder :: "'n backend \<Rightarrow> 'n world \<Rightarrow> 'n world" where
  "handleConfirmOrder B w0 =
     (case handleConfirmOrder_try B w0 of
        (None, w) \<Rightarrow> setIsSaving False w
      | (Some err, w) \<Rightarrow>
          (let w' = setError (Some save_error_message) w;
               w'' = console_error ''Error saving order:'' err w'
           in setIsSaving False w''))"

text \<open>
  What the render function offers (lines 94--100, 135--141, 171--193): while \<open>isLoading\<close>
  only the loading screen is shown; otherwise every listed order has a delete button,
  disabled when \<open>isDeletingOrder === order.id\<close>, and the confirm button is rendered when a
  customer is selected, the cart is not empty and \<open>savedSuccessfully\<close> is false, and is
  disabled when \<open>isSaving\<close>.
\<close>

definition delete_enabled :: "string \<Rightarrow> 'n world \<Rightarrow> bool" where
  "delete_enabled orderId w =
     (\<not> isLoading w \<and> orderId \<in> set (map order_id (allOrders w))
      \<and> isDeletingOrder w \<noteq> Some orderId)"

definition confirm_enabled :: "'n world \<Rightarrow> bool" where
  "confirm_enabled w =
     (\<not> isLoading w \<and> customer w \<noteq> None \<and> orderItems w \<noteq> []
      \<and> \<not> savedSuccessfully w \<and> \<not> isSaving w)"

section \<open>The event loop: handlers interleaved at their awaits\<close>

text \<open>
  JavaScript runs one handler at a time, up to its next \<open>await\<close>; while a promise is
  pending, a click or the settling of another promise may run. A \<open>task\<close> is a handler
  suspended at an \<open>await\<close> of a backend call: which call it waits for and, for the two
  load functions, who called them (\<open>useEffect\<close> on mount does not await them;
  \<open>handleDeleteOrder\<close> and \<open>handleConfirmOrder\<close> do).
\<close>

datatype caller = By_mount | By_delete string | By_confirm

datatype task =
    Await_saveOrder
  | Await_deleteOrder string
  | Await_getAllOrders caller
  | Await_getTopTapas caller

datatype 'n reply =
    Reply_saveOrder "unit outcome"
  | Reply_deleteOrder "unit outcome"
  | Reply_getAllOrders "'n Order list option outcome"
  | Reply_getTopTapas "(string \<times> 'n) list outcome"

datatype 'n event =
    Mount
  | Click_delete string
  | Click_confirm
  | Settle nat "'n reply"

record 'n machine =
  view :: "'n world"
  pending :: "task list"
  mounted :: bool

definition start :: "Customer option \<Rightarrow> 'n OrderItem list \<Rightarrow> 'n machine" where
  "start c its = \<lparr>view = initial_world c its, pending = [], mounted = False\<rparr>"

text \<open>Lines 24--30: the rest of \<open>loadOrders\<close> once \<open>getAllOrders\<close> has settled.\<close>

definition loadOrders_settled :: "'n Order list option outcome \<Rightarrow> 'n world \<Rightarrow> 'n world" where
  "loadOrders_settled r w =
     (case r of
        Resolved orders \<Rightarrow>
          setIsLoading False (setAllOrders (case orders of Some os \<Rightarrow> os | None \<Rightarrow> []) w)
      | Rejected err \<Rightarrow>
          setIsLoading False
            (setError (Some load_error_message) (console_error ''Error loading orders:'' err w)))"

text \<open>Lines 36--39: the rest of \<open>loadTopTapas\<close> once \<open>getTopTapas\<close> has settled.\<close>

definition loadTopTapas_settled :: "(string \<times> 'n) list outcome \<Rightarrow> 'n world \<Rightarrow> 'n world" where
  "loadTopTapas_settled r w =
     (case r of
        Resolved topTapasData \<Rightarrow> setTopTapas topTapasData w
      | Rejected err \<Rightarrow> console_error ''Error loading top tapas:'' err w)"

text \<open>
  \<open>resume t r w\<close> runs the task \<open>t\<close> from its \<open>await\<close>, settled with \<open>r\<close>, up to its next
  \<open>await\<close> (then the task continues as the returned one) or to its end. A reply of the
  wrong kind for the awaited call is not a step.
\<close>

fun resume :: "task \<Rightarrow> 'n reply \<Rightarrow> 'n world \<Rightarrow> ('n world \<times> task option) option" where
  "resume Await_saveOrder (Reply_saveOrder (Resolved u)) w =
     Some (emit Call_getAllOrders
             (setIsLoading True (clearOrder (setSavedSuccessfully True w))),
           Some (Await_getAllOrders By_confirm))"
| "resume Await_saveOrder (Reply_saveOrder (Rejected err)) w =
     Some (setIsSaving False
             (console_error ''Error saving order:'' err
                (setError (Some save_error_message) w)),
           None)"
| "resume (Await_deleteOrder orderId) (Reply_deleteOrder (Resolved u)) w =
     Some (emit Call_getAllOrders (setIsLoading True w),
           Some (Await_getAllOrders (By_delete orderId)))"
| "resume (Await_deleteOrder orderId) (Reply_deleteOrder (Rejected err)) w =
     Some (setIsDeletingOrder None
             (setError (Some delete_error_message)
                (console_error ''Error deleting order:'' err w)),
           None)"
| "resume (Await_getAllOrders By_mount) (Reply_getAllOrders r) w =
     Some (loadOrders_settled r w, None)"
| "resume (Await_getAllOrders (By_delete orderId)) (Reply_getAllOrders r) w =
     Some (emit Call_getTopTapas (loadOrders_settled r w),
           Some (Await_getTopTapas (By_delete orderId)))"
| "resume (Await_getAllOrders By_confirm) (Reply_getAllOrders r) w =
     Some (emit Call_getTopTapas (loadOrders_settled r w),
           Some (Await_getTopTapas By_confirm))"
| "resume (Await_getTopTapas By_mount) (Reply_getTopTapas r) w =
     Some (loadTopTapas_settled r w, None)"
| "resume (Await_getTopTapas (By_delete orderId)) (Reply_getTopTapas r) w =
     Some (setIsDeletingOrder None (loadTopTapas_settled r w), None)"
| "resume (Await_getTopTapas By_confirm) (Reply_getTopTapas r) w =
     Some (setIsSaving False (setTimeout_navigate ''/'' 2000 (loadTopTapas_settled r w)),
           None)"
| "resume t r w = None"

text \<open>What a settled task leaves in the list of pending tasks: its continuation, if any.\<close>

definition continuation :: "task option \<Rightarrow> task list" where
  "continuation nxt = (case nxt of None \<Rightarrow> [] | Some t \<Rightarrow> [t])"

text \<open>
  One step of the page. \<open>Mount\<close> is the effect of lines 42--45, run once: \<open>loadOrders()\<close>
  and \<open>loadTopTapas()\<close> are both started, neither awaited. A click is a step only on a
  control that is rendered and not disabled; it runs the handler up to its first
  \<open>await\<close>. \<open>Settle i r\<close> settles the \<open>i\<close>-th pending call with \<open>r\<close>. Leaving the page
  (the back button, the scheduled navigation) ends the view and is not a step.
\<close>

definition step :: "'n event \<Rightarrow> 'n machine \<Rightarrow> 'n machine option" where
  "step e m =
     (case e of
        Mount \<Rightarrow>
          if mounted m then None
          else Some (m\<lparr>view := emit Call_getTopTapas
                                 (emit Call_getAllOrders (setIsLoading True (view m))),
                       pending := pending m
                                  @ [Await_getAllOrders By_mount, Await_getTopTapas By_mount],
                       mounted := True\<rparr>)
      | Click_delete orderId \<Rightarrow>
          if delete_enabled orderId (view m)
          then Some (m\<lparr>view := emit (Call_deleteOrder orderId)
                                 (setIsDeletingOrder (Some orderId) (view m)),
                       pending := pending m @ [Await_deleteOrder orderId]\<rparr>)
          else None
      | Click_confirm \<Rightarrow>
          if confirm_enabled (view m)
          then (let w = setError None (setIsSaving True (view m))
                in case customer w of
                     None \<Rightarrow>
                       Some (m\<lparr>view := setIsSaving False
                                          (console_error ''Error saving order:''
                                             ''No customer selected''
                                             (setError (Some save_error_message) w))\<rparr>)
                   | Some c \<Rightarrow>
                       Some (m\<lparr>view := emit (Call_saveOrder (customer_id c) (orderItems w)) w,
                               pending := pending m @ [Await_saveOrder]\<rparr>))
          else None
      | Settle i r \<Rightarrow>
          if i < length (pending m)
          then (case resume (pending m ! i) r (view m) of
                  None \<Rightarrow> None
                | Some (w, nxt) \<Rightarrow>
                    Some (m\<lparr>view := w,
                            pending := take i (pending m) @ continuation nxt
                                       @ drop (Suc i) (pending m)\<rparr>))
          else None)"

fun run :: "'n event list \<Rightarrow> 'n machine \<Rightarrow> 'n machine option" where
  "run [] m = Some m"
| "run (e # es) m = (case step e m of None \<Rightarrow> None | Some m' \<Rightarrow> run es m')"

text \<open>
  The tasks of a running \<open>handleConfirmOrder\<close>, \<open>handleDeleteOrder\<close> and \<open>loadOrders\<close>, and the
  tasks that are a \<open>saveOrder\<close> or a \<open>deleteOrder\<close> request in flight.
\<close>

fun confirm_task :: "task \<Rightarrow> bool" where
  "confirm_task Await_saveOrder = True"
| "confirm_task (Await_getAllOrders By_confirm) = True"
| "confirm_task (Await_getTopTapas By_confirm) = True"
| "confirm_task t = False"

fun delete_task :: "string \<Rightarrow> task \<Rightarrow> bool" where
  "delete_task orderId (Await_deleteOrder x) = (x = orderId)"
| "delete_task orderId (Await_getAllOrders (By_delete x)) = (x = orderId)"
| "delete_task orderId (Await_getTopTapas (By_delete x)) = (x = orderId)"
| "delete_task orderId t = False"

fun loading_task :: "task \<Rightarrow> bool" where
  "loading_task (Await_getAllOrders c) = True"
| "loading_task t = False"

fun save_request :: "task \<Rightarrow> bool" where
  "save_request Await_saveOrder = True"
| "save_request t = False"

fun delete_request :: "task \<Rightarrow> bool" where
  "delete_request (Await_deleteOrder x) = True"
| "delete_request t = False"

text \<open>
  The invariant of the event loop: a busy flag that is set is backed by a task of its
  handler that is still pending. \<open>isSaving\<close> holds exactly while the one
  \<open>handleConfirmOrder\<close> is running; \<open>isDeletingOrder\<close> names an order only while a
  \<open>handleDeleteOrder\<close> for it is running; once mounted, \<open>isLoading\<close> holds only while
  a \<open>loadOrders\<close> is running.
\<close>

definition flags_backed :: "'n machine \<Rightarrow> bool" where
  "flags_backed m =
     (length (filter confirm_task (pending m)) = (if isSaving (view m) then 1 else 0)
      \<and> (case isDeletingOrder (view m) of
            None \<Rightarrow> True
          | Some orderId \<Rightarrow> filter (delete_task orderId) (pending m) \<noteq> [])
      \<and> (mounted m \<and> isLoading (view m) \<longrightarrow> filter loading_task (pending m) \<noteq> [])
      \<and> (\<not> mounted m \<longrightarrow> pending m = [] \<and> isLoading (view m)))"

text \<open>
  The events of a handler that runs with nothing else in between: the click, then the
  settling of each call it awaits, as the backend answers.
\<close>

definition confirm_events :: "'n backend \<Rightarrow> 'n world \<Rightarrow> 'n event list" where
  "confirm_events B w =
     Click_confirm
     # (case customer w of
          None \<Rightarrow> []
        | Some c \<Rightarrow>
            (case saveOrder B (customer_id c) (orderItems w) of
               Rejected err \<Rightarrow> [Settle 0 (Reply_saveOrder (Rejected err))]
             | Resolved u \<Rightarrow>
                 [Settle 0 (Reply_saveOrder (Resolved u)),
                  Settle 0 (Reply_getAllOrders (getAllOrders B)),
                  Settle 0 (Reply_getTopTapas (getTopTapas B))]))"

definition delete_events :: "'n backend \<Rightarrow> string \<Rightarrow> 'n event list" where
  "delete_events B orderId =
     Click_delete orderId
     # (case deleteOrder B orderId of
          Rejected err \<Rightarrow> [Settle 0 (Reply_deleteOrder (Rejected err))]
        | Resolved u \<Rightarrow>
            [Settle 0 (Reply_deleteOrder (Resolved u)),
             Settle 0 (Reply_getAllOrders (getAllOrders B)),
             Settle 0 (Reply_getTopTapas (getTopTapas B))])"

section \<open>Reading the trace\<close>

text \<open>The effects performed between a state and a later one.\<close>

definition new_effects :: "'n world \<Rightarrow> 'n world \<Rightarrow> 'n effect list" where
  "new_effects w w' = drop (length (trace w)) (trace w')"

fun is_Call_saveOrder :: "'n effect \<Rightarrow> bool" where
  "is_Call_saveOrder (Call_saveOrder c its) = True"
| "is_Call_saveOrder e = False"

fun is_SetTimeout_navigate :: "'n effect \<Rightarrow> bool" where
  "is_SetTimeout_navigate (SetTimeout_navigate route ms) = True"
| "is_SetTimeout_navigate e = False"

text \<open>The effects of one run of \<open>loadOrders\<close> and of \<open>loadTopTapas\<close>, as lists.\<close>

definition loadOrders_effects :: "'n backend \<Rightarrow> 'n effect list" where
  "loadOrders_effects B =
     [SetIsLoading True, Call_getAllOrders]
     @ (case getAllOrders B of
          Resolved orders \<Rightarrow> [SetAllOrders (case orders of Some os \<Rightarrow> os | None \<Rightarrow> [])]
        | Rejected err \<Rightarrow>
            [ConsoleError ''Error loading orders:'' err, SetError (Some load_error_message)])
     @ [SetIsLoading False]"

definition loadTopTapas_effects :: "'n backend \<Rightarrow> 'n effect list" where
  "loadTopTapas_effects B =
     Call_getTopTapas
     # (case getTopTapas B of
          Resolved topTapasData \<Rightarrow> [SetTopTapas topTapasData]
        | Rejected err \<Rightarrow> [ConsoleError ''Error loading top tapas:'' err])"

section \<open>Concrete inputs\<close>

definition ana :: Customer where
  "ana = \<lparr>customer_id = ''c1'', customer_name = ''Ana'', customer_type = Adult\<rparr>"

definition cart :: "rat OrderItem list" where
  "cart = [drink ''Coke'' 2 2, tapa ''Tapa1'' 1 5]"

definition order_of :: "string \<Rightarrow> rat Order" where
  "order_of orderId =
     \<lparr>order_id = orderId, created_at = ''2024-05-01'', order_customer = ana,
      order_items = cart\<rparr>"

definition backend_up :: "rat backend" where
  "backend_up =
     \<lparr>saveOrder = (\<lambda>c its. Resolved ()),
      getAllOrders = Resolved (Some [order_of ''A'', order_of ''B'']),
      deleteOrder = (\<lambda>orderId. Resolved ()),
      getTopTapas = Resolved [(''Tapa1'', 5)]\<rparr>"

definition backend_down :: "rat backend" where
  "backend_down =
     \<lparr>saveOrder = (\<lambda>c its. Rejected ''network''),
      getAllOrders = Rejected ''network'',
      deleteOrder = (\<lambda>orderId. Rejected ''network''),
      getTopTapas = Rejected ''network''\<rparr>"

definition backend_null :: "rat backend" where
  "backend_null = backend_up\<lparr>getAllOrders := Resolved None\<rparr>"

text \<open>The page once loaded, with nothing in the history yet.\<close>

definition ready :: "Customer option \<Rightarrow> rat OrderItem list \<Rightarrow> rat world" where
  "ready c its = (initial_world c its)\<lparr>isLoading := False\<rparr>"

section \<open>Properties of \<open>calculateTotal\<close>\<close>

lemma foldl_conditional_step:
  "foldl (\<lambda>total item. if P item then f total item else total) a xs = foldl f a (filter P xs)"
  by (induction xs arbitrary: a) simp_all

lemma calculateTotal_foldl_filter:
  "calculateTotal its =
     foldl (\<lambda>total item. total + price item * quantity item) 0 (filter chargeable its)"
  unfolding calculateTotal_def chargeable_def
  by (rule foldl_conditional_step [where P = "\<lambda>item. category item \<noteq> ''tapas''"])

lemma foldl_add_sum_list:
  fixes a :: "'m::monoid_add"
  shows "foldl (\<lambda>total item. total + g item) a xs = a + sum_list (map g xs)"
  by (induction xs arbitrary: a) (simp_all add: add.assoc)

lemma calculateTotal_sum_list:
  fixes its :: "('m::semiring_0) OrderItem list"
  shows "calculateTotal its = (\<Sum>item\<leftarrow>filter chargeable its. price item * quantity item)"
  by (simp add: calculateTotal_foldl_filter foldl_add_sum_list)

lemma calculateTotal_sum_mset:
  fixes its :: "('m::semiring_0) OrderItem list"
  shows "calculateTotal its =
           (\<Sum>item\<in>#mset (filter chargeable its). price item * quantity item)"
  by (simp add: calculateTotal_sum_list sum_mset_sum_list [symmetric])

text \<open>
  C1. For every sequence of items, \<open>calculateTotal\<close> is the sum of \<open>price * quantity\<close>
  over exactly the items whose category is not \<open>tapas\<close>, and it is \<open>0\<close> on the empty
  sequence. For every number type, binary64 included, the result is the running sum
  from \<open>0\<close> over the chargeable items in their order, with nothing but \<open>+\<close> and \<open>*\<close>
  applied: no rounding step of the function's own. In exact arithmetic that is the
  sum in the usual sense.
\<close>

theorem calculateTotal_spec:
  fixes its :: "('n::{zero,plus,times}) OrderItem list"
    and exact_its :: "('m::semiring_0) OrderItem list"
  shows "calculateTotal its =
           foldl (\<lambda>total item. total + price item * quantity item) 0 (filter chargeable its)
       \<and> calculateTotal exact_its =
           (\<Sum>item\<leftarrow>filter chargeable exact_its. price item * quantity item)
       \<and> calculateTotal ([] :: 'n OrderItem list) = 0"
proof (intro conjI)
  show "calculateTotal its =
          foldl (\<lambda>total item. total + price item * quantity item) 0 (filter chargeable its)"
    by (rule calculateTotal_foldl_filter)
  show "calculateTotal exact_its =
          (\<Sum>item\<leftarrow>filter chargeable exact_its. price item * quantity item)"
    by (rule calculateTotal_sum_list)
  show "calculateTotal ([] :: 'n OrderItem list) = 0"
    by (simp add: calculateTotal_def)
qed

text \<open>
  The example of the spec: two Cokes at 2 and five free tapas come to 4, here in exact
  arithmetic.
\<close>

theorem calculateTotal_spec_witness:
  "calculateTotal [drink ''Coke'' 2 2, tapa ''Tapa1'' 1 5] = (4 :: rat)"
  using calculateTotal_spec [of "[] :: rat OrderItem list"
      "[drink ''Coke'' 2 2, tapa ''Tapa1'' 1 5] :: rat OrderItem list"]
  by (simp add: chargeable_def drink_def tapa_def)

subsection \<open>Evaluating binary64 arithmetic\<close>

lemma rat_floor_numeral_div:
  "\<lfloor>numeral a / numeral b :: rat\<rfloor> = numeral a div numeral b"
  by (metis floor_divide_of_int_eq of_int_numeral)

lemma rat_ceiling_numeral_div:
  "\<lceil>numeral a / numeral b :: rat\<rceil> = - (- numeral a div numeral b)"
  unfolding ceiling_def
  by (metis divide_minus_left floor_divide_of_int_eq of_int_neg_numeral of_int_numeral)

lemmas double_eval =
  round_to_double_def binary_exponent_def bit_length.simps pow2_def round_half_even_def
  Let_def rat_floor_numeral_div rat_ceiling_numeral_div

lemma literal_one_tenth: "literal (1 / 10) = Finite (3602879701896397 / 36028797018963968)"
  by (simp add: literal_def double_eval)

lemma literal_one_fifth: "literal (1 / 5) = Finite (3602879701896397 / 18014398509481984)"
  by (simp add: literal_def double_eval)

lemma literal_three_tenths: "literal (3 / 10) = Finite (5404319552844595 / 18014398509481984)"
  by (simp add: literal_def double_eval)

lemma literal_one: "literal 1 = Finite 1"
  by (simp add: literal_def double_eval)

lemmas literal_eval = literal_one_tenth literal_one_fifth literal_three_tenths literal_one

text \<open>
  Some values of the arithmetic: \<open>0.1 + 0.2\<close> is \<open>0.30000000000000004\<close>; above \<open>2 ^ 53\<close>
  odd integers are not representable and a tie goes to the even significand; adding
  \<open>2 ^ 1023\<close> to itself overflows.
\<close>

lemma binary64_examples:
  "literal (1 / 10) + literal (1 / 5) = Finite (1351079888211149 / 4503599627370496)"
  "Finite 9007199254740992 + Finite 1 = Finite 9007199254740992"
  "Finite 9007199254740994 + Finite 1 = Finite 9007199254740996"
  "Finite (2 ^ 1023) + Finite (2 ^ 1023) = PosInfinity"
  "Finite 3 * Finite (1 / 2) = Finite (3 / 2)"
  by (simp_all add: literal_eval double_eval)

text \<open>The example of the spec on JavaScript numbers: the total is 4.\<close>

lemma spec_example_binary64:
  "calculateTotal [drink ''Coke'' (Finite 2) (Finite 2), tapa ''Tapa1'' (Finite 1) (Finite 5)]
   = Finite 4"
  by (simp add: calculateTotal_def drink_def tapa_def zero_double_def double_eval)

text \<open>
  In JavaScript \<open>0.1 + 0.2 + 0.3\<close> is \<open>0.6000000000000001\<close> and \<open>0.3 + 0.2 + 0.1\<close> is
  \<open>0.6\<close>.
\<close>

lemma total_ascending:
  "calculateTotal [drink ''a'' (literal (1 / 10)) (literal 1),
                   drink ''b'' (literal (1 / 5)) (literal 1),
                   drink ''c'' (literal (3 / 10)) (literal 1)]
   = Finite (1351079888211149 / 2251799813685248)"
  by (simp add: calculateTotal_def drink_def literal_eval zero_double_def double_eval)

lemma total_descending:
  "calculateTotal [drink ''c'' (literal (3 / 10)) (literal 1),
                   drink ''b'' (literal (1 / 5)) (literal 1),
                   drink ''a'' (literal (1 / 10)) (literal 1)]
   = Finite (5404319552844595 / 9007199254740992)"
  by (simp add: calculateTotal_def drink_def literal_eval zero_double_def double_eval)

text \<open>
  C8 as stated fails on JavaScript numbers: three drinks at 0.1, 0.2 and 0.3, one of
  each, total 0.6000000000000001 in this order and 0.6 in the reverse order, although
  the two sequences hold the same items.
\<close>

theorem calculateTotal_permutation_counterexample:
  "mset (filter chargeable
           [drink ''a'' (literal (1 / 10)) (literal 1),
            drink ''b'' (literal (1 / 5)) (literal 1),
            drink ''c'' (literal (3 / 10)) (literal 1)])
   = mset (filter chargeable
           [drink ''c'' (literal (3 / 10)) (literal 1),
            drink ''b'' (literal (1 / 5)) (literal 1),
            drink ''a'' (literal (1 / 10)) (literal 1)])
   \<and> calculateTotal [drink ''a'' (literal (1 / 10)) (literal 1),
                     drink ''b'' (literal (1 / 5)) (literal 1),
                     drink ''c'' (literal (3 / 10)) (literal 1)]
     \<noteq> calculateTotal [drink ''c'' (literal (3 / 10)) (literal 1),
                       drink ''b'' (literal (1 / 5)) (literal 1),
                       drink ''a'' (literal (1 / 10)) (literal 1)]"
proof
  show "mset (filter chargeable
           [drink ''a'' (literal (1 / 10)) (literal 1),
            drink ''b'' (literal (1 / 5)) (literal 1),
            drink ''c'' (literal (3 / 10)) (literal 1)])
   = mset (filter chargeable
           [drink ''c'' (literal (3 / 10)) (literal 1),
            drink ''b'' (literal (1 / 5)) (literal 1),
            drink ''a'' (literal (1 / 10)) (literal 1)])"
    by (simp add: chargeable_def drink_def)
  show "calculateTotal [drink ''a'' (literal (1 / 10)) (literal 1),
                     drink ''b'' (literal (1 / 5)) (literal 1),
                     drink ''c'' (literal (3 / 10)) (literal 1)]
     \<noteq> calculateTotal [drink ''c'' (literal (3 / 10)) (literal 1),
                       drink ''b'' (literal (1 / 5)) (literal 1),
                       drink ''a'' (literal (1 / 10)) (literal 1)]"
    unfolding total_ascending total_descending by simp
qed

text \<open>
  C8, amended. The total does not depend on the \<open>tapas\<close> items at all: two sequences
  with the same chargeable items in the same order have the same total, for every
  number type. Where addition is associative and commutative (exact arithmetic) the
  order does not matter either: two sequences whose chargeable items agree as
  multisets have the same total.
\<close>

theorem calculateTotal_depends_on_chargeable_items:
  fixes xs ys :: "('n::{zero,plus,times}) OrderItem list"
    and exact_xs exact_ys :: "('m::semiring_0) OrderItem list"
  shows "(filter chargeable xs = filter chargeable ys
            \<longrightarrow> calculateTotal xs = calculateTotal ys)
       \<and> (mset (filter chargeable exact_xs) = mset (filter chargeable exact_ys)
            \<longrightarrow> calculateTotal exact_xs = calculateTotal exact_ys)"
  by (simp add: calculateTotal_foldl_filter [of xs] calculateTotal_foldl_filter [of ys]
      calculateTotal_sum_mset [of exact_xs] calculateTotal_sum_mset [of exact_ys])

theorem calculateTotal_depends_on_chargeable_items_witness:
  "filter chargeable [tapa ''Tapa1'' (literal 1) (literal 1), drink ''Coke'' (literal (1 / 5)) (literal 1)]
     = filter chargeable [drink ''Coke'' (literal (1 / 5)) (literal 1), tapa ''Tapa2'' (literal (3 / 10)) (literal 1)]
   \<and> calculateTotal [tapa ''Tapa1'' (literal 1) (literal 1), drink ''Coke'' (literal (1 / 5)) (literal 1)]
     = calculateTotal [drink ''Coke'' (literal (1 / 5)) (literal 1), tapa ''Tapa2'' (literal (3 / 10)) (literal 1)]
   \<and> mset (filter chargeable [drink ''Coke'' 2 2, tapa ''Tapa1'' 1 5, drink ''Beer'' 3 (1 :: rat)])
     = mset (filter chargeable [tapa ''Tapa2'' 7 7, drink ''Beer'' 3 1, drink ''Coke'' 2 (2 :: rat)])
   \<and> calculateTotal [drink ''Coke'' 2 2, tapa ''Tapa1'' 1 5, drink ''Beer'' 3 (1 :: rat)]
     = calculateTotal [tapa ''Tapa2'' 7 7, drink ''Beer'' 3 1, drink ''Coke'' 2 (2 :: rat)]"
  using calculateTotal_depends_on_chargeable_items
    [of "[tapa ''Tapa1'' (literal 1) (literal 1), drink ''Coke'' (literal (1 / 5)) (literal 1)]"
        "[drink ''Coke'' (literal (1 / 5)) (literal 1), tapa ''Tapa2'' (literal (3 / 10)) (literal 1)]"
        "[drink ''Coke'' 2 2, tapa ''Tapa1'' 1 5, drink ''Beer'' 3 (1 :: rat)]"
        "[tapa ''Tapa2'' 7 7, drink ''Beer'' 3 1, drink ''Coke'' 2 (2 :: rat)]"]
  by (simp add: chargeable_def drink_def tapa_def)

section \<open>Properties of the handlers\<close>

lemmas world_ops =
  emit_def setIsSaving_def setSavedSuccessfully_def setError_def setAllOrders_def
  setIsLoading_def setIsDeletingOrder_def setTopTapas_def console_error_def
  setTimeout_navigate_def clearOrder_def

lemmas settle_ops = continuation_def world_ops loadOrders_settled_def loadTopTapas_settled_def

lemma new_effects_append [simp]: "trace w' = trace w @ es \<Longrightarrow> new_effects w w' = es"
  by (simp add: new_effects_def)

lemma loadOrders_eq:
  "loadOrders B w =
     loadOrders_settled (getAllOrders B) (emit Call_getAllOrders (setIsLoading True w))"
  by (simp add: loadOrders_def loadOrders_settled_def Let_def split: outcome.splits)

lemma loadTopTapas_eq:
  "loadTopTapas B w = loadTopTapas_settled (getTopTapas B) (emit Call_getTopTapas w)"
  by (simp add: loadTopTapas_def loadTopTapas_settled_def Let_def split: outcome.splits)

lemma trace_loadOrders: "trace (loadOrders B w) = trace w @ loadOrders_effects B"
  by (simp add: loadOrders_def loadOrders_effects_def world_ops Let_def split: outcome.splits)

lemma trace_loadTopTapas: "trace (loadTopTapas B w) = trace w @ loadTopTapas_effects B"
  by (simp add: loadTopTapas_def loadTopTapas_effects_def world_ops Let_def
      split: outcome.splits)

lemma loads_keep_cart:
  "customer (loadOrders B w) = customer w"
  "orderItems (loadOrders B w) = orderItems w"
  "customer (loadTopTapas B w) = customer w"
  "orderItems (loadTopTapas B w) = orderItems w"
  by (simp_all add: loadOrders_def loadTopTapas_def world_ops Let_def split: outcome.splits)

lemma loads_keep_flags:
  "isSaving (loadOrders B w) = isSaving w"
  "savedSuccessfully (loadOrders B w) = savedSuccessfully w"
  "isDeletingOrder (loadOrders B w) = isDeletingOrder w"
  "isSaving (loadTopTapas B w) = isSaving w"
  "savedSuccessfully (loadTopTapas B w) = savedSuccessfully w"
  "isDeletingOrder (loadTopTapas B w) = isDeletingOrder w"
  "isLoading (loadTopTapas B w) = isLoading w"
  "error (loadTopTapas B w) = error w"
  "allOrders (loadTopTapas B w) = allOrders w"
  by (simp_all add: loadOrders_def loadTopTapas_def world_ops Let_def split: outcome.splits)

lemma isLoading_loadOrders: "isLoading (loadOrders B w) = False"
  by (simp add: loadOrders_def world_ops Let_def split: outcome.splits)

lemma no_navigate_in_loads:
  "filter is_SetTimeout_navigate (loadOrders_effects B) = []"
  "filter is_SetTimeout_navigate (loadTopTapas_effects B) = []"
  by (simp_all add: loadOrders_effects_def loadTopTapas_effects_def split: outcome.splits)

subsection \<open>Confirming an order\<close>

lemma trace_confirm_no_customer:
  "customer w = None \<Longrightarrow>
   trace (handleConfirmOrder B w) =
     trace w @ [SetIsSaving True, SetError None, SetError (Some save_error_message),
                ConsoleError ''Error saving order:'' ''No customer selected'', SetIsSaving False]"
  by (simp add: handleConfirmOrder_def handleConfirmOrder_try_def world_ops Let_def)

lemma trace_confirm_save_rejected:
  "customer w = Some c \<Longrightarrow> saveOrder B (customer_id c) (orderItems w) = Rejected err \<Longrightarrow>
   trace (handleConfirmOrder B w) =
     trace w @ [SetIsSaving True, SetError None, Call_saveOrder (customer_id c) (orderItems w),
                SetError (Some save_error_message), ConsoleError ''Error saving order:'' err,
                SetIsSaving False]"
  by (simp add: handleConfirmOrder_def handleConfirmOrder_try_def world_ops Let_def)

lemma trace_confirm_saved:
  "customer w = Some c \<Longrightarrow> saveOrder B (customer_id c) (orderItems w) = Resolved u \<Longrightarrow>
   trace (handleConfirmOrder B w) =
     trace w @ [SetIsSaving True, SetError None, Call_saveOrder (customer_id c) (orderItems w),
                SetSavedSuccessfully True, ClearOrder]
             @ loadOrders_effects B @ loadTopTapas_effects B
             @ [SetTimeout_navigate ''/'' 2000, SetIsSaving False]"
  by (simp add: handleConfirmOrder_def handleConfirmOrder_try_def Let_def world_ops
      trace_loadOrders trace_loadTopTapas)

text \<open>
  C2. When the confirm handler runs with no customer selected, the \<open>try\<close> block throws
  \<open>No customer selected\<close>, and the effects of the whole handler are exactly: the two
  setters that open it, the error message, the log entry and the final
  \<open>setIsSaving(false)\<close>. No call of \<open>saveOrder\<close> is among them, whatever the backend.
\<close>

theorem confirm_without_customer:
  assumes "customer w = None"
  shows "fst (handleConfirmOrder_try B w) = Some ''No customer selected''
       \<and> new_effects w (handleConfirmOrder B w) =
           [SetIsSaving True, SetError None, SetError (Some save_error_message),
            ConsoleError ''Error saving order:'' ''No customer selected'', SetIsSaving False]
       \<and> \<not> list_ex is_Call_saveOrder (new_effects w (handleConfirmOrder B w))"
proof -
  have t: "fst (handleConfirmOrder_try B w) = Some ''No customer selected''"
    using assms by (simp add: handleConfirmOrder_try_def world_ops Let_def)
  have e: "new_effects w (handleConfirmOrder B w) =
           [SetIsSaving True, SetError None, SetError (Some save_error_message),
            ConsoleError ''Error saving order:'' ''No customer selected'', SetIsSaving False]"
    using trace_confirm_no_customer [OF assms] by simp
  show ?thesis using t e by simp
qed

theorem confirm_without_customer_witness:
  "customer (ready None cart) = None
   \<and> fst (handleConfirmOrder_try backend_up (ready None cart)) = Some ''No customer selected''
   \<and> new_effects (ready None cart) (handleConfirmOrder backend_up (ready None cart)) =
       [SetIsSaving True, SetError None, SetError (Some save_error_message),
        ConsoleError ''Error saving order:'' ''No customer selected'', SetIsSaving False]
   \<and> \<not> list_ex is_Call_saveOrder
         (new_effects (ready None cart) (handleConfirmOrder backend_up (ready None cart)))"
  using confirm_without_customer [of "ready None cart" backend_up]
  by (simp add: ready_def initial_world_def)

text \<open>
  C3. When \<open>saveOrder\<close> rejects, the handler leaves the selected customer and the order
  items as they were, does not call \<open>clearOrder\<close>, sets the error message, ends with
  \<open>isSaving\<close> false and leaves \<open>savedSuccessfully\<close> untouched; if the confirm button was
  available before, it is available again, so the user can retry.
\<close>

theorem save_failure_keeps_cart:
  assumes "customer w = Some c"
    and "saveOrder B (customer_id c) (orderItems w) = Rejected err"
  shows "customer (handleConfirmOrder B w) = customer w
       \<and> orderItems (handleConfirmOrder B w) = orderItems w
       \<and> ClearOrder \<notin> set (new_effects w (handleConfirmOrder B w))
       \<and> error (handleConfirmOrder B w) = Some save_error_message
       \<and> isSaving (handleConfirmOrder B w) = False
       \<and> savedSuccessfully (handleConfirmOrder B w) = savedSuccessfully w
       \<and> (confirm_enabled w \<longrightarrow> confirm_enabled (handleConfirmOrder B w))"
proof -
  have s: "handleConfirmOrder B w =
       w\<lparr>isSaving := False, error := Some save_error_message,
         trace := trace w @ [SetIsSaving True, SetError None,
                    Call_saveOrder (customer_id c) (orderItems w),
                    SetError (Some save_error_message), ConsoleError ''Error saving order:'' err,
                    SetIsSaving False]\<rparr>"
    using assms by (simp add: handleConfirmOrder_def handleConfirmOrder_try_def world_ops Let_def)
  show ?thesis
    unfolding s by (simp add: new_effects_def confirm_enabled_def)
qed

theorem save_failure_keeps_cart_witness:
  "customer (ready (Some ana) cart) = Some ana
   \<and> saveOrder backend_down (customer_id ana) (orderItems (ready (Some ana) cart))
       = Rejected ''network''
   \<and> confirm_enabled (ready (Some ana) cart)
   \<and> customer (handleConfirmOrder backend_down (ready (Some ana) cart)) = Some ana
   \<and> orderItems (handleConfirmOrder backend_down (ready (Some ana) cart)) = cart
   \<and> ClearOrder \<notin> set (new_effects (ready (Some ana) cart)
                         (handleConfirmOrder backend_down (ready (Some ana) cart)))
   \<and> error (handleConfirmOrder backend_down (ready (Some ana) cart)) = Some save_error_message
   \<and> isSaving (handleConfirmOrder backend_down (ready (Some ana) cart)) = False
   \<and> savedSuccessfully (handleConfirmOrder backend_down (ready (Some ana) cart)) = False
   \<and> confirm_enabled (handleConfirmOrder backend_down (ready (Some ana) cart))"
  using save_failure_keeps_cart [of "ready (Some ana) cart" ana backend_down "''network''"]
  by (simp add: ready_def initial_world_def backend_down_def confirm_enabled_def cart_def)

text \<open>
  C5. When \<open>saveOrder\<close> resolves, the effects of the handler are, in this order: the
  two opening setters, the call of \<open>saveOrder\<close>, \<open>setSavedSuccessfully(true)\<close>,
  \<open>clearOrder()\<close>, the run of \<open>loadOrders\<close>, the run of \<open>loadTopTapas\<close>, the one
  \<open>setTimeout\<close> that schedules \<open>navigate('/')\<close> after 2000 ms, and \<open>setIsSaving(false)\<close>;
  the saved flag is then set and the cart is empty. When the save fails (no customer,
  or \<open>saveOrder\<close> rejects) no navigation is scheduled.
\<close>

theorem confirm_success_sequence:
  "(customer w = Some c \<and> saveOrder B (customer_id c) (orderItems w) = Resolved u \<longrightarrow>
      new_effects w (handleConfirmOrder B w) =
        [SetIsSaving True, SetError None, Call_saveOrder (customer_id c) (orderItems w),
         SetSavedSuccessfully True, ClearOrder]
        @ loadOrders_effects B @ loadTopTapas_effects B
        @ [SetTimeout_navigate ''/'' 2000, SetIsSaving False]
      \<and> filter is_SetTimeout_navigate (new_effects w (handleConfirmOrder B w)) =
          [SetTimeout_navigate ''/'' 2000]
      \<and> savedSuccessfully (handleConfirmOrder B w)
      \<and> customer (handleConfirmOrder B w) = None
      \<and> orderItems (handleConfirmOrder B w) = [])
   \<and> (customer w = None
        \<or> (customer w = Some c \<and> saveOrder B (customer_id c) (orderItems w) = Rejected err) \<longrightarrow>
      filter is_SetTimeout_navigate (new_effects w (handleConfirmOrder B w)) = [])"
proof (intro conjI impI)
  assume a: "customer w = Some c \<and> saveOrder B (customer_id c) (orderItems w) = Resolved u"
  have e: "new_effects w (handleConfirmOrder B w) =
        [SetIsSaving True, SetError None, Call_saveOrder (customer_id c) (orderItems w),
         SetSavedSuccessfully True, ClearOrder]
        @ loadOrders_effects B @ loadTopTapas_effects B
        @ [SetTimeout_navigate ''/'' 2000, SetIsSaving False]"
    using a trace_confirm_saved [of w c B u] by simp
  show "new_effects w (handleConfirmOrder B w) =
        [SetIsSaving True, SetError None, Call_saveOrder (customer_id c) (orderItems w),
         SetSavedSuccessfully True, ClearOrder]
        @ loadOrders_effects B @ loadTopTapas_effects B
        @ [SetTimeout_navigate ''/'' 2000, SetIsSaving False]"
    by (rule e)
  show "filter is_SetTimeout_navigate (new_effects w (handleConfirmOrder B w)) =
          [SetTimeout_navigate ''/'' 2000]"
    unfolding e by (simp add: no_navigate_in_loads)
  have w': "handleConfirmOrder B w =
      setIsSaving False (setTimeout_navigate ''/'' 2000 (loadTopTapas B (loadOrders B
        (clearOrder (setSavedSuccessfully True
           (emit (Call_saveOrder (customer_id c) (orderItems w))
              (setError None (setIsSaving True w))))))))"
    using a by (simp add: handleConfirmOrder_def handleConfirmOrder_try_def Let_def world_ops)
  show "savedSuccessfully (handleConfirmOrder B w)"
    unfolding w' by (simp add: setIsSaving_def setTimeout_navigate_def emit_def loads_keep_flags)
       (simp add: world_ops)
  show "customer (handleConfirmOrder B w) = None"
    unfolding w' by (simp add: setIsSaving_def setTimeout_navigate_def emit_def loads_keep_cart)
       (simp add: world_ops)
  show "orderItems (handleConfirmOrder B w) = []"
    unfolding w' by (simp add: setIsSaving_def setTimeout_navigate_def emit_def loads_keep_cart)
       (simp add: world_ops)
next
  assume "customer w = None
        \<or> (customer w = Some c \<and> saveOrder B (customer_id c) (orderItems w) = Rejected err)"
  then show "filter is_SetTimeout_navigate (new_effects w (handleConfirmOrder B w)) = []"
  proof
    assume "customer w = None"
    from trace_confirm_no_customer [OF this, of B] show ?thesis by simp
  next
    assume "customer w = Some c \<and> saveOrder B (customer_id c) (orderItems w) = Rejected err"
    then show ?thesis using trace_confirm_save_rejected [of w c B err] by simp
  qed
qed

theorem confirm_success_sequence_witness:
  "customer (ready (Some ana) cart) = Some ana
   \<and> saveOrder backend_up (customer_id ana) (orderItems (ready (Some ana) cart)) = Resolved ()
   \<and> new_effects (ready (Some ana) cart) (handleConfirmOrder backend_up (ready (Some ana) cart)) =
       [SetIsSaving True, SetError None, Call_saveOrder ''c1'' cart,
        SetSavedSuccessfully True, ClearOrder,
        SetIsLoading True, Call_getAllOrders, SetAllOrders [order_of ''A'', order_of ''B''],
        SetIsLoading False,
        Call_getTopTapas, SetTopTapas [(''Tapa1'', 5)],
        SetTimeout_navigate ''/'' 2000, SetIsSaving False]
   \<and> customer (handleConfirmOrder backend_up (ready (Some ana) cart)) = None
   \<and> orderItems (handleConfirmOrder backend_up (ready (Some ana) cart)) = []
   \<and> saveOrder backend_down (customer_id ana) (orderItems (ready (Some ana) cart))
       = Rejected ''network''
   \<and> filter is_SetTimeout_navigate
        (new_effects (ready (Some ana) cart)
           (handleConfirmOrder backend_down (ready (Some ana) cart))) = []"
  using confirm_success_sequence
      [of "ready (Some ana) cart" ana backend_up "()" "''network''"]
    confirm_success_sequence
      [of "ready (Some ana) cart" ana backend_down "()" "''network''"]
  by (simp add: ready_def initial_world_def backend_up_def backend_down_def ana_def
      loadOrders_effects_def loadTopTapas_effects_def)

subsection \<open>Loading\<close>

text \<open>
  C9. A failed \<open>getAllOrders\<close> leaves \<open>allOrders\<close> as it was, and a failed \<open>getTopTapas\<close>
  leaves \<open>topTapas\<close> as it was: on failure the run of \<open>loadOrders\<close> consists of the
  loading flag, the call, the log entry, the error message and the loading flag again,
  and the run of \<open>loadTopTapas\<close> of the call and the log entry; neither contains the
  setter of the data.
\<close>

theorem failed_load_keeps_data:
  "(getAllOrders B = Rejected err \<longrightarrow>
      allOrders (loadOrders B w) = allOrders w
      \<and> new_effects w (loadOrders B w) =
          [SetIsLoading True, Call_getAllOrders, ConsoleError ''Error loading orders:'' err,
           SetError (Some load_error_message), SetIsLoading False])
   \<and> (getTopTapas B = Rejected err' \<longrightarrow>
      topTapas (loadTopTapas B w) = topTapas w
      \<and> new_effects w (loadTopTapas B w) =
          [Call_getTopTapas, ConsoleError ''Error loading top tapas:'' err'])"
  by (simp add: loadOrders_def loadTopTapas_def world_ops Let_def new_effects_def)

theorem failed_load_keeps_data_witness:
  "getAllOrders backend_down = Rejected ''network''
   \<and> allOrders (loadOrders backend_down ((ready None cart)\<lparr>allOrders := [order_of ''A'']\<rparr>))
       = [order_of ''A'']
   \<and> getTopTapas backend_down = Rejected ''network''
   \<and> topTapas (loadTopTapas backend_down ((ready None cart)\<lparr>topTapas := [(''Tapa1'', 5)]\<rparr>))
       = [(''Tapa1'', 5)]"
  using failed_load_keeps_data
      [of backend_down "''network''" "(ready None cart)\<lparr>allOrders := [order_of ''A'']\<rparr>"
          "''network''"]
    failed_load_keeps_data
      [of backend_down "''network''" "(ready None cart)\<lparr>topTapas := [(''Tapa1'', 5)]\<rparr>"
          "''network''"]
  by (simp add: backend_down_def)

text \<open>
  C10. When \<open>getAllOrders\<close> resolves with \<open>null\<close> or \<open>undefined\<close>, \<open>loadOrders\<close> sets the
  order history to the empty list.
\<close>

theorem null_orders_become_empty_list:
  "getAllOrders B = Resolved None \<Longrightarrow>
   allOrders (loadOrders B w) = [] \<and> SetAllOrders [] \<in> set (new_effects w (loadOrders B w))"
  by (simp add: loadOrders_def world_ops Let_def new_effects_def)

theorem null_orders_become_empty_list_witness:
  "getAllOrders backend_null = Resolved None
   \<and> allOrders (loadOrders backend_null ((ready None cart)\<lparr>allOrders := [order_of ''A'']\<rparr>))
       = []"
  using null_orders_become_empty_list
      [of backend_null "(ready None cart)\<lparr>allOrders := [order_of ''A'']\<rparr>"]
  by (simp add: backend_null_def)

section \<open>Properties of the event loop\<close>

subsection \<open>A handler run on its own is a run of the event loop\<close>

lemma run_handleConfirmOrder:
  assumes "confirm_enabled w"
  shows "run (confirm_events B w) \<lparr>view = w, pending = [], mounted = True\<rparr>
         = Some \<lparr>view = handleConfirmOrder B w, pending = [], mounted = True\<rparr>"
  using assms
  by (auto simp add: confirm_events_def confirm_enabled_def step_def Let_def
      handleConfirmOrder_def handleConfirmOrder_try_def loadOrders_eq loadTopTapas_eq
      settle_ops split: outcome.splits)

lemma run_handleDeleteOrder:
  assumes "delete_enabled orderId w"
  shows "run (delete_events B orderId) \<lparr>view = w, pending = [], mounted = True\<rparr>
         = Some \<lparr>view = handleDeleteOrder B orderId w, pending = [], mounted = True\<rparr>"
  using assms
  by (auto simp add: delete_events_def step_def Let_def
      handleDeleteOrder_def handleDeleteOrder_try_def loadOrders_eq loadTopTapas_eq
      settle_ops split: outcome.splits)

text \<open>
  On mount both loads are started before either settles; whichever settles first, the
  state variables end as if \<open>loadOrders\<close> and \<open>loadTopTapas\<close> had run one after the other.
\<close>

lemma run_mount:
  "map_option (\<lambda>m. (pending m, allOrders (view m), topTapas (view m), error (view m),
                      isLoading (view m)))
     (run [Mount, Settle 0 (Reply_getAllOrders (getAllOrders B)),
           Settle 0 (Reply_getTopTapas (getTopTapas B))] (start c its))
   = Some ([], allOrders (loadTopTapas B (loadOrders B (initial_world c its))),
           topTapas (loadTopTapas B (loadOrders B (initial_world c its))),
           error (loadTopTapas B (loadOrders B (initial_world c its))),
           isLoading (loadTopTapas B (loadOrders B (initial_world c its))))"
  "run [Mount, Settle 1 (Reply_getTopTapas (getTopTapas B)),
        Settle 0 (Reply_getAllOrders (getAllOrders B))] (start c its)
   = map_option (\<lambda>m. m\<lparr>view := (view m)\<lparr>trace :=
         [SetIsLoading True, Call_getAllOrders, Call_getTopTapas]
         @ tl (loadTopTapas_effects B) @ drop 2 (loadOrders_effects B)\<rparr>\<rparr>)
       (run [Mount, Settle 0 (Reply_getAllOrders (getAllOrders B)),
             Settle 0 (Reply_getTopTapas (getTopTapas B))] (start c its))"
  by (simp_all add: start_def initial_world_def step_def settle_ops loadOrders_def
      loadTopTapas_def loadOrders_effects_def loadTopTapas_effects_def Let_def
      split: outcome.splits)

subsection \<open>Busy flags are backed by running handlers\<close>

lemma filter_replace:
  assumes "i < length xs"
  shows "length (filter P (take i xs @ ys @ drop (Suc i) xs)) + (if P (xs ! i) then 1 else 0)
         = length (filter P xs) + length (filter P ys)"
proof -
  have "xs = take i xs @ [xs ! i] @ drop (Suc i) xs"
    using assms by (simp add: id_take_nth_drop [symmetric])
  then have "filter P xs = filter P (take i xs) @ filter P [xs ! i] @ filter P (drop (Suc i) xs)"
    by (metis filter_append)
  then show ?thesis by simp
qed

lemma filter_replace_nonempty:
  assumes "i < length xs" and "filter P xs \<noteq> []"
    and "P (xs ! i) \<Longrightarrow> filter P ys \<noteq> []"
  shows "filter P (take i xs @ ys @ drop (Suc i) xs) \<noteq> []"
proof -
  define a where "a = length (filter P xs)"
  define b where "b = length (filter P ys)"
  define c where "c = length (filter P (take i xs @ ys @ drop (Suc i) xs))"
  have e: "c + (if P (xs ! i) then 1 else 0) = a + b"
    unfolding a_def b_def c_def by (rule filter_replace [OF assms(1)])
  have "0 < a" unfolding a_def using assms(2) by simp
  moreover have "P (xs ! i) \<Longrightarrow> 0 < b" unfolding b_def using assms(3) by simp
  ultimately have "0 < c" using e by (cases "P (xs ! i)") simp_all
  then show ?thesis unfolding c_def by auto
qed

lemma filter_length_mono:
  "(\<And>x. P x \<Longrightarrow> Q x) \<Longrightarrow> length (filter P xs) \<le> length (filter Q xs)"
  by (induction xs) auto

lemma save_request_confirm_task: "save_request t \<Longrightarrow> confirm_task t"
  by (cases t) simp_all

text \<open>What one resumption does to each busy flag and to the tasks of each handler.\<close>

lemma resume_confirm:
  assumes "resume t r w = Some (w', nxt)"
  shows "length (filter confirm_task (continuation nxt)) =
           (if confirm_task t \<and> nxt \<noteq> None then 1 else 0)"
    and "isSaving w' = (if confirm_task t \<and> nxt = None then False else isSaving w)"
  using assms
  by (elim resume.elims; fastforce simp add: settle_ops split: outcome.splits)+

lemma resume_delete:
  assumes "resume t r w = Some (w', nxt)"
  shows "length (filter (delete_task orderId) (continuation nxt)) =
           (if delete_task orderId t \<and> nxt \<noteq> None then 1 else 0)"
    and "isDeletingOrder w' = Some orderId \<Longrightarrow>
           isDeletingOrder w = Some orderId \<and> (delete_task orderId t \<longrightarrow> nxt \<noteq> None)"
  using assms
  by (elim resume.elims; fastforce simp add: settle_ops split: outcome.splits)+

lemma resume_loading:
  assumes "resume t r w = Some (w', nxt)"
  shows "isLoading w' \<Longrightarrow>
           filter loading_task (continuation nxt) \<noteq> [] \<or> (isLoading w \<and> \<not> loading_task t)"
  using assms
  by (elim resume.elims; fastforce simp add: settle_ops split: outcome.splits)+

lemma resume_completes:
  assumes "resume t r w = Some (w', nxt)"
  shows "loading_task t \<Longrightarrow> \<not> isLoading w'"
    and "delete_task orderId t \<and> nxt = None \<Longrightarrow> isDeletingOrder w' = None"
  using assms
  by (elim resume.elims; fastforce simp add: settle_ops split: outcome.splits)+

lemma step_settle:
  assumes "step (Settle i r) m = Some m'"
  obtains w' nxt where "i < length (pending m)"
    and "resume (pending m ! i) r (view m) = Some (w', nxt)"
    and "m' = m\<lparr>view := w',
                pending := take i (pending m) @ continuation nxt @ drop (Suc i) (pending m)\<rparr>"
  using assms
  by (auto simp add: step_def split: if_splits option.splits)

lemma flags_backed_settle:
  assumes inv: "flags_backed m" and st: "step (Settle i r) m = Some m'"
  shows "flags_backed m'"
proof -
  from st obtain w' nxt where i: "i < length (pending m)"
    and res: "resume (pending m ! i) r (view m) = Some (w', nxt)"
    and m': "m' = m\<lparr>view := w',
                pending := take i (pending m) @ continuation nxt @ drop (Suc i) (pending m)\<rparr>"
    by (rule step_settle)
  let ?t = "pending m ! i"
  from i have mt: "mounted m" using inv by (auto simp add: flags_backed_def)
  have c: "length (filter confirm_task (pending m')) = (if isSaving (view m') then 1 else 0)"
  proof -
    have "length (filter confirm_task (pending m')) + (if confirm_task ?t then 1 else 0)
          = length (filter confirm_task (pending m))
            + (if confirm_task ?t \<and> nxt \<noteq> None then 1 else 0)"
      unfolding m' using filter_replace [OF i, of confirm_task "continuation nxt"]
        resume_confirm(1) [OF res] by simp
    moreover have "length (filter confirm_task (pending m)) = (if isSaving (view m) then 1 else 0)"
      using inv by (simp add: flags_backed_def)
    moreover have "confirm_task ?t \<Longrightarrow> 0 < length (filter confirm_task (pending m))"
      using i by (simp add: filter_empty_conv) (metis nth_mem)
    ultimately show ?thesis
      using resume_confirm(2) [OF res] by (simp add: m' split: if_splits)
  qed
  have d: "filter (delete_task orderId) (pending m') \<noteq> []"
    if f: "isDeletingOrder (view m') = Some orderId" for orderId
  proof -
    from f have f': "isDeletingOrder w' = Some orderId" by (simp add: m')
    from resume_delete(2) [OF res f']
    have old: "isDeletingOrder (view m) = Some orderId"
      and go: "delete_task orderId ?t \<longrightarrow> nxt \<noteq> None" by simp_all
    from old inv have ne: "filter (delete_task orderId) (pending m) \<noteq> []"
      by (simp add: flags_backed_def)
    have "filter (delete_task orderId) (take i (pending m) @ continuation nxt
                                         @ drop (Suc i) (pending m)) \<noteq> []"
    proof (rule filter_replace_nonempty [OF i ne])
      assume "delete_task orderId ?t"
      with go resume_delete(1) [OF res, of orderId]
      have "length (filter (delete_task orderId) (continuation nxt)) = 1" by simp
      then show "filter (delete_task orderId) (continuation nxt) \<noteq> []" by auto
    qed
    then show ?thesis by (simp add: m')
  qed
  have l: "filter loading_task (pending m') \<noteq> []" if f: "isLoading (view m')"
  proof -
    from f have "isLoading w'" by (simp add: m')
    from resume_loading [OF res this]
    show ?thesis
    proof
      assume "filter loading_task (continuation nxt) \<noteq> []"
      then show ?thesis by (simp add: m')
    next
      assume a: "isLoading (view m) \<and> \<not> loading_task ?t"
      with inv mt have ne: "filter loading_task (pending m) \<noteq> []"
        by (simp add: flags_backed_def)
      have "filter loading_task (take i (pending m) @ continuation nxt
                                  @ drop (Suc i) (pending m)) \<noteq> []"
        by (rule filter_replace_nonempty [OF i ne]) (use a in simp)
      then show ?thesis by (simp add: m')
    qed
  qed
  show ?thesis
    unfolding flags_backed_def using c d l mt by (simp add: m' split: option.splits)
qed

lemma flags_backed_step:
  assumes inv: "flags_backed m" and st: "step e m = Some m'"
  shows "flags_backed m'"
proof (cases e)
  case Mount
  with st have nm: "\<not> mounted m" by (simp add: step_def split: if_splits)
  with inv have p: "pending m = []" by (simp add: flags_backed_def)
  from inv have q: "length (filter confirm_task (pending m)) =
      (if isSaving (view m) then 1 else 0)"
    "isDeletingOrder (view m) = None"
    by (simp_all add: flags_backed_def p split: option.splits)
  from st Mount nm have m': "m' = m\<lparr>view := emit Call_getTopTapas
                                 (emit Call_getAllOrders (setIsLoading True (view m))),
                       pending := pending m
                                  @ [Await_getAllOrders By_mount, Await_getTopTapas By_mount],
                       mounted := True\<rparr>"
    by (simp add: step_def)
  show ?thesis unfolding flags_backed_def m' using q
    by (simp add: world_ops p split: if_splits)
next
  case (Click_delete orderId)
  with st have en: "delete_enabled orderId (view m)"
    and m': "m' = m\<lparr>view := emit (Call_deleteOrder orderId)
                                 (setIsDeletingOrder (Some orderId) (view m)),
                       pending := pending m @ [Await_deleteOrder orderId]\<rparr>"
    by (simp_all add: step_def split: if_splits)
  from en have "\<not> isLoading (view m)" by (simp add: delete_enabled_def)
  with inv have mt: "mounted m" by (auto simp add: flags_backed_def)
  show ?thesis unfolding flags_backed_def m' using inv mt
    by (simp add: world_ops flags_backed_def split: option.splits)
next
  case Click_confirm
  with st have en: "confirm_enabled (view m)" by (simp add: step_def split: if_splits)
  then obtain c where c: "customer (view m) = Some c" and ns: "\<not> isSaving (view m)"
    and nl: "\<not> isLoading (view m)"
    by (auto simp add: confirm_enabled_def)
  from nl inv have mt: "mounted m" by (auto simp add: flags_backed_def)
  from st Click_confirm en c
  have m': "m' = m\<lparr>view := emit (Call_saveOrder (customer_id c) (orderItems (view m)))
                              (setError None (setIsSaving True (view m))),
                    pending := pending m @ [Await_saveOrder]\<rparr>"
    by (simp add: step_def Let_def world_ops)
  show ?thesis unfolding flags_backed_def m' using inv mt ns
    by (simp add: world_ops flags_backed_def split: option.splits)
next
  case (Settle i r)
  with inv st show ?thesis by (simp add: flags_backed_settle)
qed

lemma flags_backed_run:
  "flags_backed m \<Longrightarrow> run evs m = Some m' \<Longrightarrow> flags_backed m'"
proof (induction evs arbitrary: m)
  case Nil
  then show ?case by simp
next
  case (Cons e evs)
  then show ?case by (auto split: option.splits dest: flags_backed_step)
qed

lemma flags_backed_start: "flags_backed (start c its)"
  by (simp add: flags_backed_def start_def initial_world_def)

lemma flags_backed_reachable: "run evs (start c its) = Some m \<Longrightarrow> flags_backed m"
  using flags_backed_run [OF flags_backed_start] .

lemma isSaving_handleConfirmOrder: "isSaving (handleConfirmOrder B w) = False"
  by (simp add: handleConfirmOrder_def world_ops Let_def split: prod.splits option.splits)

lemma isDeletingOrder_handleDeleteOrder: "isDeletingOrder (handleDeleteOrder B orderId w) = None"
  by (simp add: handleDeleteOrder_def world_ops Let_def split: prod.splits option.splits)

lemma last_handleConfirmOrder: "last (trace (handleConfirmOrder B w)) = SetIsSaving False"
  by (simp add: handleConfirmOrder_def world_ops Let_def split: prod.splits option.splits)

lemma last_handleDeleteOrder:
  "last (trace (handleDeleteOrder B orderId w)) = SetIsDeletingOrder None"
  by (simp add: handleDeleteOrder_def world_ops Let_def split: prod.splits option.splits)

lemma last_loadOrders: "last (trace (loadOrders B w)) = SetIsLoading False"
  by (simp add: trace_loadOrders loadOrders_effects_def)

text \<open>
  C4. Whatever the backend answers, a run of \<open>handleConfirmOrder\<close> ends with \<open>isSaving\<close>
  false, a run of \<open>handleDeleteOrder\<close> with \<open>isDeletingOrder\<close> null and a run of
  \<open>loadOrders\<close> with \<open>isLoading\<close> false, and the clearing setter is the last effect of
  the run (the \<open>finally\<close> block). With the handlers interleaved in any way, the
  resumption that completes \<open>loadOrders\<close>, \<open>handleConfirmOrder\<close> or \<open>handleDeleteOrder\<close>
  leaves that handler's flag clear, and a mounted page with no call pending has all
  three flags clear: no state with a stuck busy flag is reachable. (A call that never
  settles keeps its handler, and its flag, pending.)
\<close>

theorem busy_flags_cleared:
  "isSaving (handleConfirmOrder B w) = False
   \<and> last (trace (handleConfirmOrder B w)) = SetIsSaving False
   \<and> isDeletingOrder (handleDeleteOrder B orderId w) = None
   \<and> last (trace (handleDeleteOrder B orderId w)) = SetIsDeletingOrder None
   \<and> isLoading (loadOrders B w) = False
   \<and> last (trace (loadOrders B w)) = SetIsLoading False
   \<and> (resume t r w = Some (w', nxt) \<longrightarrow>
         (loading_task t \<longrightarrow> \<not> isLoading w')
         \<and> (confirm_task t \<and> nxt = None \<longrightarrow> \<not> isSaving w')
         \<and> (delete_task orderId t \<and> nxt = None \<longrightarrow> isDeletingOrder w' = None))
   \<and> (run evs (start c its) = Some m \<and> mounted m \<and> pending m = []
        \<longrightarrow> \<not> isSaving (view m) \<and> isDeletingOrder (view m) = None \<and> \<not> isLoading (view m))"
proof (intro conjI impI)
  assume "resume t r w = Some (w', nxt)" and "loading_task t"
  then show "\<not> isLoading w'" by (rule resume_completes)
next
  assume "resume t r w = Some (w', nxt)" and "confirm_task t \<and> nxt = None"
  then show "\<not> isSaving w'" by (simp add: resume_confirm(2))
next
  assume "resume t r w = Some (w', nxt)" and "delete_task orderId t \<and> nxt = None"
  then show "isDeletingOrder w' = None" by (rule resume_completes)
next
  assume a: "run evs (start c its) = Some m \<and> mounted m \<and> pending m = []"
  then have "run evs (start c its) = Some m" by simp
  then have inv: "flags_backed m" by (rule flags_backed_reachable)
  from inv a show "\<not> isSaving (view m)" by (simp add: flags_backed_def split: if_splits)
  from inv a show "isDeletingOrder (view m) = None"
    by (simp add: flags_backed_def split: option.splits)
  from inv a show "\<not> isLoading (view m)" by (simp add: flags_backed_def)
qed (simp_all add: isSaving_handleConfirmOrder last_handleConfirmOrder
      isDeletingOrder_handleDeleteOrder last_handleDeleteOrder isLoading_loadOrders
      last_loadOrders)

text \<open>
  A run in which the history fails to load, a delete fails and a save fails, after
  which nothing is pending and no flag is set.
\<close>

theorem busy_flags_cleared_witness:
  "\<exists>m. run [Mount,
             Settle 0 (Reply_getAllOrders (Resolved (Some [order_of ''A'']))),
             Settle 0 (Reply_getTopTapas (Rejected ''network'')),
             Click_delete ''A'',
             Click_confirm,
             Settle 0 (Reply_deleteOrder (Rejected ''network'')),
             Settle 0 (Reply_saveOrder (Rejected ''network''))]
          (start (Some ana) cart) = Some m
       \<and> mounted m \<and> pending m = []
       \<and> \<not> isSaving (view m) \<and> isDeletingOrder (view m) = None \<and> \<not> isLoading (view m)
       \<and> isSaving (handleConfirmOrder backend_down (ready (Some ana) cart)) = False"
proof -
  let ?evs = "[Mount,
             Settle 0 (Reply_getAllOrders (Resolved (Some [order_of ''A'']))),
             Settle 0 (Reply_getTopTapas (Rejected ''network'')),
             Click_delete ''A'',
             Click_confirm,
             Settle 0 (Reply_deleteOrder (Rejected ''network'')),
             Settle 0 (Reply_saveOrder (Rejected ''network''))]"
  have "map_option (\<lambda>m. (mounted m, pending m)) (run ?evs (start (Some ana) cart))
        = Some (True, [])"
    by (simp add: start_def initial_world_def step_def delete_enabled_def confirm_enabled_def
        order_of_def cart_def Let_def settle_ops)
  then obtain m where r: "run ?evs (start (Some ana) cart) = Some m"
    and p: "mounted m" "pending m = []"
    by auto
  note b = busy_flags_cleared [where B = backend_down and w = "ready (Some ana) cart"
      and evs = ?evs and c = "Some ana" and its = cart and m = m]
  have "run ?evs (start (Some ana) cart) = Some m \<and> mounted m \<and> pending m = []
        \<longrightarrow> \<not> isSaving (view m) \<and> isDeletingOrder (view m) = None \<and> \<not> isLoading (view m)"
    by (rule b [THEN conjunct2, THEN conjunct2, THEN conjunct2, THEN conjunct2,
          THEN conjunct2, THEN conjunct2, THEN conjunct2])
  with r p have f: "\<not> isSaving (view m)" "isDeletingOrder (view m) = None"
    "\<not> isLoading (view m)"
    by simp_all
  have h: "isSaving (handleConfirmOrder backend_down (ready (Some ana) cart)) = False"
    by (rule b [THEN conjunct1])
  show ?thesis
    by (intro exI [of _ m] conjI) (fact r p f h)+
qed

subsection \<open>Requests in flight\<close>

text \<open>
  C6 as stated fails for deletes: with orders A and B listed, a click on the delete
  button of A starts \<open>deleteOrder('A')\<close>; the button of B is still enabled
  (\<open>isDeletingOrder === order.id\<close> is false for B), and a click on it starts
  \<open>deleteOrder('B')\<close> while the first request is in flight.
\<close>

theorem two_deletes_in_flight:
  "map_option (\<lambda>m. (pending m, length (filter delete_request (pending m))))
     (run [Mount,
           Settle 0 (Reply_getAllOrders (Resolved (Some [order_of ''A'', order_of ''B'']))),
           Settle 0 (Reply_getTopTapas (Resolved [])),
           Click_delete ''A'',
           Click_delete ''B'']
        (start None []))
   = Some ([Await_deleteOrder ''A'', Await_deleteOrder ''B''], 2)"
  by (simp add: start_def initial_world_def step_def delete_enabled_def order_of_def
      settle_ops)

text \<open>
  C6, amended. In every reachable state of the page: at most one \<open>saveOrder\<close> request is
  in flight, and while one is in flight \<open>isSaving\<close> holds and a click on the confirm
  button is not possible; while \<open>isDeletingOrder\<close> names an order, a delete of that
  order is still running and a click on that order's delete button is not possible; a
  click on the delete button of an order makes \<open>isDeletingOrder\<close> name that order, and
  the delete buttons of other orders that were enabled stay enabled.
\<close>

theorem busy_flags_guard_requests:
  assumes "run evs (start c its) = Some m"
  shows "length (filter save_request (pending m)) \<le> 1
       \<and> (filter save_request (pending m) \<noteq> []
            \<longrightarrow> isSaving (view m) \<and> step Click_confirm m = None)
       \<and> (\<forall>orderId. isDeletingOrder (view m) = Some orderId
            \<longrightarrow> filter (delete_task orderId) (pending m) \<noteq> []
                \<and> step (Click_delete orderId) m = None)
       \<and> (\<forall>orderId m'. step (Click_delete orderId) m = Some m'
            \<longrightarrow> isDeletingOrder (view m') = Some orderId
                \<and> (\<forall>other. other \<noteq> orderId \<and> delete_enabled other (view m)
                      \<longrightarrow> delete_enabled other (view m')))"
proof -
  have inv: "flags_backed m" using assms by (rule flags_backed_reachable)
  have le: "length (filter save_request (pending m)) \<le> length (filter confirm_task (pending m))"
    by (rule filter_length_mono) (rule save_request_confirm_task)
  have c: "length (filter confirm_task (pending m)) = (if isSaving (view m) then 1 else 0)"
    using inv by (simp add: flags_backed_def)
  have 1: "length (filter save_request (pending m)) \<le> 1"
    using le c by (simp split: if_splits)
  have 2: "isSaving (view m) \<and> step Click_confirm m = None"
    if "filter save_request (pending m) \<noteq> []"
  proof -
    from that have "0 < length (filter save_request (pending m))" by simp
    with le c have "isSaving (view m)" by (simp split: if_splits)
    then show ?thesis by (simp add: step_def confirm_enabled_def)
  qed
  have 3: "filter (delete_task orderId) (pending m) \<noteq> [] \<and> step (Click_delete orderId) m = None"
    if "isDeletingOrder (view m) = Some orderId" for orderId
    using inv that by (simp add: flags_backed_def step_def delete_enabled_def)
  have 4: "isDeletingOrder (view m') = Some orderId
           \<and> (\<forall>other. other \<noteq> orderId \<and> delete_enabled other (view m)
                \<longrightarrow> delete_enabled other (view m'))"
    if "step (Click_delete orderId) m = Some m'" for orderId m'
    using that by (auto simp add: step_def delete_enabled_def world_ops split: if_splits)
  show ?thesis using 1 2 3 4 by blast
qed

text \<open>
  A state with a save and a delete of A in flight: the confirm button and the delete
  button of A cannot be clicked; the delete button of B can, and the delete button of C
  is enabled before and after that click.
\<close>

theorem busy_flags_guard_requests_witness:
  "\<exists>m m'. run [Mount,
                Settle 0 (Reply_getAllOrders
                  (Resolved (Some [order_of ''A'', order_of ''B'', order_of ''C'']))),
                Settle 0 (Reply_getTopTapas (Resolved [])),
                Click_delete ''A'',
                Click_confirm]
             (start (Some ana) cart) = Some m
        \<and> pending m = [Await_deleteOrder ''A'', Await_saveOrder]
        \<and> isSaving (view m) \<and> step Click_confirm m = None
        \<and> isDeletingOrder (view m) = Some ''A'' \<and> step (Click_delete ''A'') m = None
        \<and> step (Click_delete ''B'') m = Some m'
        \<and> isDeletingOrder (view m') = Some ''B''
        \<and> delete_enabled ''C'' (view m) \<and> delete_enabled ''C'' (view m')"
proof -
  let ?evs = "[Mount,
                Settle 0 (Reply_getAllOrders
                  (Resolved (Some [order_of ''A'', order_of ''B'', order_of ''C'']))),
                Settle 0 (Reply_getTopTapas (Resolved [])),
                Click_delete ''A'',
                Click_confirm]"
  have "map_option (\<lambda>m. (pending m, isDeletingOrder (view m), isLoading (view m),
                          map order_id (allOrders (view m))))
          (run ?evs (start (Some ana) cart))
        = Some ([Await_deleteOrder ''A'', Await_saveOrder], Some ''A'', False,
                [''A'', ''B'', ''C''])"
    by (simp add: start_def initial_world_def step_def delete_enabled_def confirm_enabled_def
        order_of_def cart_def Let_def settle_ops)
  then obtain m where r: "run ?evs (start (Some ana) cart) = Some m"
    and p: "pending m = [Await_deleteOrder ''A'', Await_saveOrder]"
    and d: "isDeletingOrder (view m) = Some ''A''"
    and l: "\<not> isLoading (view m)"
    and o: "map order_id (allOrders (view m)) = [''A'', ''B'', ''C'']"
    by auto
  from d l o obtain m' where s: "step (Click_delete ''B'') m = Some m'"
    by (simp add: step_def delete_enabled_def)
  from d l o have e: "delete_enabled ''C'' (view m)"
    by (simp add: delete_enabled_def)
  note g = busy_flags_guard_requests [OF r]
  from p have ne: "filter save_request (pending m) \<noteq> []" by simp
  note a = g [THEN conjunct2, THEN conjunct1, rule_format, OF ne]
  note b = g [THEN conjunct2, THEN conjunct2, THEN conjunct1, rule_format, OF d]
  note c = g [THEN conjunct2, THEN conjunct2, THEN conjunct2, rule_format, OF s]
  have k: "''C'' \<noteq> ''B'' \<and> delete_enabled ''C'' (view m)"
    using e by simp
  note c3 = c [THEN conjunct2, rule_format, OF k]
  show ?thesis
    by (intro exI [of _ m] exI [of _ m'] conjI)
      (fact r p d s e a [THEN conjunct1] a [THEN conjunct2] b [THEN conjunct2]
         c [THEN conjunct1] c3)+
qed

subsection \<open>The initial load\<close>

text \<open>
  C7. A rejected \<open>getAllOrders\<close> makes \<open>loadOrders\<close> set the error message and still end
  with \<open>isLoading\<close> false; a rejected \<open>getTopTapas\<close> makes \<open>loadTopTapas\<close> append its call
  and one log entry to the trace and change nothing else. On mount, in whichever order
  the two fetches settle, the page ends with \<open>isLoading\<close> false and nothing pending, with
  the error message set exactly when the orders fetch failed; and it leaves the loading
  state as soon as the orders fetch has settled, whether or not the top-items fetch has.
\<close>

theorem initial_load_failures:
  "(getAllOrders B = Rejected err \<longrightarrow>
      error (loadOrders B w) = Some load_error_message \<and> isLoading (loadOrders B w) = False)
   \<and> (getTopTapas B = Rejected err' \<longrightarrow>
      loadTopTapas B w =
        w\<lparr>trace := trace w @ [Call_getTopTapas, ConsoleError ''Error loading top tapas:'' err']\<rparr>)
   \<and> map_option (\<lambda>m. (isLoading (view m), error (view m), pending m))
        (run [Mount, Settle 0 (Reply_getAllOrders ro), Settle 0 (Reply_getTopTapas rt)]
           (start c its))
      = Some (False, (case ro of Rejected e \<Rightarrow> Some load_error_message | Resolved os \<Rightarrow> None), [])
   \<and> map_option (\<lambda>m. (isLoading (view m), error (view m), pending m))
        (run [Mount, Settle 1 (Reply_getTopTapas rt), Settle 0 (Reply_getAllOrders ro)]
           (start c its))
      = Some (False, (case ro of Rejected e \<Rightarrow> Some load_error_message | Resolved os \<Rightarrow> None), [])
   \<and> map_option (\<lambda>m. (isLoading (view m), pending m))
        (run [Mount, Settle 0 (Reply_getAllOrders ro)] (start c its))
      = Some (False, [Await_getTopTapas By_mount])"
proof (intro conjI impI)
  assume "getAllOrders B = Rejected err"
  then show "error (loadOrders B w) = Some load_error_message"
    and "isLoading (loadOrders B w) = False"
    by (simp_all add: loadOrders_def world_ops Let_def)
next
  assume "getTopTapas B = Rejected err'"
  then show "loadTopTapas B w =
        w\<lparr>trace := trace w @ [Call_getTopTapas, ConsoleError ''Error loading top tapas:'' err']\<rparr>"
    by (simp add: loadTopTapas_def world_ops Let_def)
next
  show "map_option (\<lambda>m. (isLoading (view m), error (view m), pending m))
        (run [Mount, Settle 0 (Reply_getAllOrders ro), Settle 0 (Reply_getTopTapas rt)]
           (start c its))
      = Some (False, (case ro of Rejected e \<Rightarrow> Some load_error_message | Resolved os \<Rightarrow> None), [])"
    by (simp add: start_def initial_world_def step_def settle_ops split: outcome.splits)
  show "map_option (\<lambda>m. (isLoading (view m), error (view m), pending m))
        (run [Mount, Settle 1 (Reply_getTopTapas rt), Settle 0 (Reply_getAllOrders ro)]
           (start c its))
      = Some (False, (case ro of Rejected e \<Rightarrow> Some load_error_message | Resolved os \<Rightarrow> None), [])"
    by (simp add: start_def initial_world_def step_def settle_ops split: outcome.splits)
  show "map_option (\<lambda>m. (isLoading (view m), pending m))
        (run [Mount, Settle 0 (Reply_getAllOrders ro)] (start c its))
      = Some (False, [Await_getTopTapas By_mount])"
    by (simp add: start_def initial_world_def step_def settle_ops split: outcome.splits)
qed

theorem initial_load_failures_witness:
  "getAllOrders backend_down = Rejected ''network''
   \<and> error (loadOrders backend_down (initial_world None cart)) = Some load_error_message
   \<and> isLoading (loadOrders backend_down (initial_world None cart)) = False
   \<and> getTopTapas backend_down = Rejected ''network''
   \<and> error (loadTopTapas backend_down (initial_world None cart)) = None
   \<and> map_option (\<lambda>m. (isLoading (view m), error (view m), pending m))
        (run [Mount, Settle 1 (Reply_getTopTapas (Rejected ''network'')),
              Settle 0 (Reply_getAllOrders (Resolved (Some [order_of ''A''])))]
           (start None cart))
      = Some (False, None, [])"
  using initial_load_failures
      [of backend_down "''network''" "initial_world None cart" "''network''"
          "Resolved (Some [order_of ''A''])" "Rejected ''network''" None cart]
  by (simp add: backend_down_def initial_world_def)

end
